theory Spec2Isabelle
  imports Complex_Main "HOL-Library.Sublist"
begin

section \<open>Satellite pass prediction and reminder scheduling (main.py)\<close>

text \<open>
  The module keeps its configuration and the downloaded element text in module-level
  globals, reads the element file and the clock from its environment, and delegates orbit
  propagation and event finding to the skyfield library. The model makes each of these
  explicit: the globals are a record that every function takes and returns, the
  environment is a record of what the file read and the clock give on this call, and the
  library is a record of functions that is a parameter of the model.
\<close>

subsection \<open>Python values\<close>

text \<open>
  A \<open>datetime\<close> is the number of microseconds since 0001-01-01T00:00:00 UTC, a
  \<open>timedelta\<close> a number of microseconds. Python represents only the datetimes of the
  years 1 to 9999 and raises \<open>OverflowError\<close> when arithmetic leaves that range.
  Elevations and coordinates are Python floats; they are modelled as reals, so rounding
  and NaN are outside the model.
\<close>

type_synonym datetime = int
type_synonym timedelta = int

datatype exn = OverflowError | IndexError | LibraryException string

datatype 'a py = Raise exn | Return 'a

definition datetime_max :: datetime where
  "datetime_max = 315537897599999999"

definition datetime_valid :: "datetime \<Rightarrow> bool" where
  "datetime_valid d = (0 \<le> d \<and> d \<le> datetime_max)"

definition timedelta_minutes :: "int \<Rightarrow> timedelta" where
  "timedelta_minutes m = m * 60000000"

definition timedelta_days :: "int \<Rightarrow> timedelta" where
  "timedelta_days d = d * 86400000000"

text \<open>
  \<open>dt + timedelta(...)\<close> and \<open>dt - timedelta(...)\<close>. A timedelta too large to be built
  (more than 999999999 days) also moves every valid datetime out of range, so the one
  range test covers both failures.
\<close>

definition datetime_add :: "datetime \<Rightarrow> timedelta \<Rightarrow> datetime py" where
  "datetime_add d td = (if datetime_valid (d + td) then Return (d + td) else Raise OverflowError)"

definition datetime_sub :: "datetime \<Rightarrow> timedelta \<Rightarrow> datetime py" where
  "datetime_sub d td = (if datetime_valid (d - td) then Return (d - td) else Raise OverflowError)"

definition total_seconds :: "timedelta \<Rightarrow> real" where
  "total_seconds td = real_of_int td / 1000000"

text \<open>
  \<open>str.splitlines()\<close>: a line ends at a line boundary, \<open>\r\n\<close> is one boundary, and
  a last line without a boundary is a line only when it is not empty. Characters are the
  code points below 256; of the boundaries of \<open>splitlines\<close> these are
  \<open>\n \v \f \r \x1c \x1d \x1e \x85\<close>.
\<close>

definition is_line_boundary :: "char \<Rightarrow> bool" where
  "is_line_boundary c = (c \<in> set [CHR 0x0A, CHR 0x0B, CHR 0x0C, CHR 0x0D, CHR 0x1C, CHR 0x1D, CHR 0x1E, CHR 0x85])"

fun splitlines_from :: "string \<Rightarrow> string \<Rightarrow> string list" where
  "splitlines_from cur [] = (if cur = [] then [] else [cur])"
| "splitlines_from cur (c # cs) =
     (if c = CHR 0x0D then
        (case cs of
           [] \<Rightarrow> [cur]
         | d # ds \<Rightarrow> if d = CHR 0x0A then cur # splitlines_from [] ds
                     else cur # splitlines_from [] cs)
      else if is_line_boundary c then cur # splitlines_from [] cs
      else splitlines_from (cur @ [c]) cs)"

definition splitlines :: "string \<Rightarrow> string list" where
  "splitlines s = splitlines_from [] s"

text \<open>\<open>needle in hay\<close> on strings: some suffix of \<open>hay\<close> starts with \<open>needle\<close>.\<close>

fun str_contains :: "string \<Rightarrow> string \<Rightarrow> bool" where
  "str_contains needle [] = (needle = [])"
| "str_contains needle (c # cs) = (prefix needle (c # cs) \<or> str_contains needle cs)"

subsection \<open>Module state, environment and library\<close>

record globals =
  TLE_URL :: string
  SAT_NAME :: string
  GROUND_STATION_LAT :: real
  GROUND_STATION_LON :: real
  GROUND_STATION_ELEVATION :: real
  ALTITUDE_THRESHOLD :: real
  NOTIFY_MINUTES :: int
  tle_content :: "string option"
  last_tle_update :: "datetime option"

definition initial_globals :: globals where
  "initial_globals =
     \<lparr>TLE_URL = ''http://celestrak.org/NORAD/elements/satnogs.txt'',
      SAT_NAME = ''CUBESX-HSE 3'',
      GROUND_STATION_LAT = 55.7558,
      GROUND_STATION_LON = 37.6173,
      GROUND_STATION_ELEVATION = 144,
      ALTITUDE_THRESHOLD = 15,
      NOTIFY_MINUTES = 15,
      tle_content = None,
      last_tle_update = None\<rparr>"

text \<open>
  What the environment gives on one call: \<open>read_tle_file\<close> is the text that opening and
  reading \<open>tle.txt\<close> returns, \<open>None\<close> when either raises; \<open>utcnow\<close> is the clock.
\<close>

record world =
  read_tle_file :: "string option"
  utcnow :: datetime

record station =
  latitude_degrees :: real
  longitude_degrees :: real
  elevation_m :: real

text \<open>
  The skyfield calls of the module. \<open>'sat\<close> is an \<open>EarthSatellite\<close>, \<open>'t\<close> a skyfield
  \<open>Time\<close>. A call that raises gives \<open>Inl\<close> of the exception's text. \<open>find_events\<close>
  returns the event times and the event codes (0 rise, 1 culmination, 2 set) as two
  arrays; \<open>altaz_degrees sat st t\<close> is \<open>(sat - st).at(t).altaz()[0].degrees\<close>.
\<close>

record ('sat, 't) skyfield =
  EarthSatellite :: "string \<Rightarrow> string \<Rightarrow> string \<Rightarrow> string + 'sat"
  load :: "string \<Rightarrow> string + unit"
  ts_utc :: "datetime \<Rightarrow> 't"
  find_events :: "'sat \<Rightarrow> station \<Rightarrow> 't \<Rightarrow> 't \<Rightarrow> real \<Rightarrow> string + ('t list \<times> nat list)"
  altaz_degrees :: "'sat \<Rightarrow> station \<Rightarrow> 't \<Rightarrow> real"
  utc_datetime :: "'t \<Rightarrow> datetime"

text \<open>The error texts that the functions return in the second component of their result.\<close>

datatype error =
    TleFileNotFound
  | IncompleteTle
  | SatelliteNotFound
  | SatelliteCreateError string
  | PassCalcError string

subsection \<open>Element-set lookup\<close>

text \<open>
  The \<open>for i, line in enumerate(lines)\<close> loop of \<open>get_tle_for_satellite\<close>: the first
  line that contains the name decides the result.
\<close>

fun tle_scan :: "string \<Rightarrow> string list \<Rightarrow> (nat \<times> string) list \<Rightarrow> error + string \<times> string \<times> string" where
  "tle_scan name lines [] = Inl SatelliteNotFound"
| "tle_scan name lines ((i, line) # rest) =
     (if str_contains name line then
        (if i + 2 < length lines then Inr (lines ! i, lines ! (i + 1), lines ! (i + 2))
         else Inl IncompleteTle)
      else tle_scan name lines rest)"

definition tle_lookup :: "string \<Rightarrow> string \<Rightarrow> error + string \<times> string \<times> string" where
  "tle_lookup name text = (let lines = splitlines text in tle_scan name lines (enumerate 0 lines))"

definition get_tle_for_satellite ::
  "world \<Rightarrow> globals \<Rightarrow> (error + string \<times> string \<times> string) \<times> globals" where
  "get_tle_for_satellite w g =
     (case tle_content g of
        None \<Rightarrow>
          (case read_tle_file w of
             None \<Rightarrow> (Inl TleFileNotFound, g)
           | Some text \<Rightarrow> (tle_lookup (SAT_NAME g) text, g\<lparr>tle_content := Some text\<rparr>))
      | Some text \<Rightarrow> (tle_lookup (SAT_NAME g) text, g))"

definition get_satellite ::
  "('sat, 't) skyfield \<Rightarrow> world \<Rightarrow> globals \<Rightarrow> (error + 'sat) \<times> globals" where
  "get_satellite sky w g =
     (case get_tle_for_satellite w g of
        (Inl err, g') \<Rightarrow> (Inl err, g')
      | (Inr (name_line, tle_line1, tle_line2), g') \<Rightarrow>
          (case EarthSatellite sky tle_line1 tle_line2 (SAT_NAME g') of
             Inl e \<Rightarrow> (Inl (SatelliteCreateError e), g')
           | Inr sat \<Rightarrow> (Inr sat, g')))"

subsection \<open>Pass detection\<close>

record pass_event =
  rise :: datetime
  culmination :: datetime
  set_time :: datetime
  max_elevation :: real

text \<open>
  The \<open>while i < len(events)\<close> loop of \<open>calculate_passes\<close>, with the index and the
  list \<open>passes\<close> as arguments. \<open>events[i + 1]\<close> and \<open>events[i + 2]\<close> are read only
  behind \<open>i + 2 < len(events)\<close>; \<open>t_events[i + 2]\<close> is read without a test of its own and
  raises \<open>IndexError\<close> when the array of times is shorter than the array of codes.
\<close>

function passes_loop ::
  "('sat, 't) skyfield \<Rightarrow> 'sat \<Rightarrow> station \<Rightarrow> real \<Rightarrow> 't list \<Rightarrow> nat list \<Rightarrow> nat \<Rightarrow>
   pass_event list \<Rightarrow> pass_event list py" where
  "passes_loop sky sat st threshold t_events events i passes =
     (if i < length events then
        (if events ! i = 0 \<and> i + 2 < length events \<and> events ! (i + 1) = 1 \<and> events ! (i + 2) = 2
         then
           (if i + 2 < length t_events then
              (let rise_time = utc_datetime sky (t_events ! i);
                   culm_time = utc_datetime sky (t_events ! (i + 1));
                   set_time = utc_datetime sky (t_events ! (i + 2));
                   max_elevation = altaz_degrees sky sat st (t_events ! (i + 1))
               in passes_loop sky sat st threshold t_events events (i + 3)
                    (if max_elevation \<ge> threshold
                     then passes @ [\<lparr>rise = rise_time, culmination = culm_time,
                                     set_time = set_time, max_elevation = max_elevation\<rparr>]
                     else passes))
            else Raise IndexError)
         else passes_loop sky sat st threshold t_events events (i + 1) passes)
      else Return passes)"
  by pat_completeness auto
termination
  by (relation "measure (\<lambda>(sky, sat, st, threshold, t_events, events, i, passes). length events - i)") auto

declare passes_loop.simps [simp del]

definition station_of :: "globals \<Rightarrow> station" where
  "station_of g =
     \<lparr>latitude_degrees = GROUND_STATION_LAT g,
      longitude_degrees = GROUND_STATION_LON g,
      elevation_m = GROUND_STATION_ELEVATION g\<rparr>"

definition calculate_passes ::
  "('sat, 't) skyfield \<Rightarrow> world \<Rightarrow> int \<Rightarrow> globals \<Rightarrow> (error + pass_event list) py \<times> globals" where
  "calculate_passes sky w next_days g =
     (case get_satellite sky w g of
        (Inl err, g') \<Rightarrow> (Return (Inl err), g')
      | (Inr sat, g') \<Rightarrow>
          (let st = station_of g' in
           case load sky ''de421.bsp'' of
             Inl e \<Rightarrow> (Raise (LibraryException e), g')
           | Inr eph \<Rightarrow>
               (let now = utcnow w; t0 = ts_utc sky now in
                case datetime_add now (timedelta_days next_days) of
                  Raise x \<Rightarrow> (Raise x, g')
                | Return end_time \<Rightarrow>
                    (case find_events sky sat st t0 (ts_utc sky end_time) 0 of
                       Inl e \<Rightarrow> (Return (Inl (PassCalcError e)), g')
                     | Inr (t_events, events) \<Rightarrow>
                         (case passes_loop sky sat st (ALTITUDE_THRESHOLD g') t_events events 0 [] of
                            Raise x \<Rightarrow> (Raise x, g')
                          | Return passes \<Rightarrow> (Return (Inr passes), g'))))))"

subsection \<open>Reminder scheduling\<close>

datatype callback = pass_notification

record job =
  job_callback :: callback
  job_delay :: real
  job_chat_id :: int

datatype log_record = InfoNotifyTimePassed

text \<open>The job queue of the bot and the records written through the module's logger.\<close>

record runtime =
  job_queue :: "job list"
  logged :: "log_record list"

definition schedule_notification ::
  "globals \<Rightarrow> world \<Rightarrow> runtime \<Rightarrow> datetime \<Rightarrow> int \<Rightarrow> runtime py" where
  "schedule_notification g w rt pass_time chat_id =
     (case datetime_sub pass_time (timedelta_minutes (NOTIFY_MINUTES g)) of
        Raise x \<Rightarrow> Raise x
      | Return notify_time \<Rightarrow>
          (let now = utcnow w;
               delay = total_seconds (notify_time - now)
           in if delay > 0
              then Return (rt\<lparr>job_queue := job_queue rt @
                     [\<lparr>job_callback = pass_notification, job_delay = delay, job_chat_id = chat_id\<rparr>]\<rparr>)
              else Return (rt\<lparr>logged := logged rt @ [InfoNotifyTimePassed]\<rparr>)))"

subsection \<open>Notions used to state the properties\<close>

text \<open>
  The element text that a lookup works on: the text held in memory, or else the text of
  the file.
\<close>

definition stored_text :: "world \<Rightarrow> globals \<Rightarrow> string option" where
  "stored_text w g = (case tle_content g of None \<Rightarrow> read_tle_file w | Some text \<Rightarrow> Some text)"

text \<open>
  The format of an element line, which the module itself never tests: 69 characters, the
  line number first and the checksum digit last, the checksum being the sum of the digits
  among the first 68 characters, with each minus sign counted as 1, modulo 10.
\<close>

definition tle_checksum :: "string \<Rightarrow> nat" where
  "tle_checksum s =
     sum_list (map (\<lambda>c. let n = (of_char c :: nat)
                       in if 48 \<le> n \<and> n \<le> 57 then n - 48 else if n = 45 then 1 else 0)
                   (take 68 s)) mod 10"

definition tle_line_valid :: "char \<Rightarrow> string \<Rightarrow> bool" where
  "tle_line_valid number s =
     (length s = 69 \<and> s ! 0 = number \<and> (of_char (s ! 68) :: nat) = 48 + tle_checksum s)"

text \<open>
  The indices at which a scan of the event codes finds a complete rise, culmination, set
  triple: the scan starts at index \<open>i\<close> of the whole array with the codes from there
  on, moves past a triple as a whole and past any other code one at a time; fewer than
  three codes hold no triple.
\<close>

fun triple_starts :: "nat \<Rightarrow> nat list \<Rightarrow> nat list" where
  "triple_starts i (a # b # c # rest) =
     (if a = 0 \<and> b = 1 \<and> c = 2 then i # triple_starts (i + 3) rest
      else triple_starts (i + 1) (b # c # rest))"
| "triple_starts i [a, b] = []"
| "triple_starts i [a] = []"
| "triple_starts i [] = []"

text \<open>The dictionary that the loop builds from the triple that starts at index \<open>j\<close>.\<close>

definition pass_at :: "('sat, 't) skyfield \<Rightarrow> 'sat \<Rightarrow> station \<Rightarrow> 't list \<Rightarrow> nat \<Rightarrow> pass_event" where
  "pass_at sky sat st t_events j =
     \<lparr>rise = utc_datetime sky (t_events ! j),
      culmination = utc_datetime sky (t_events ! (j + 1)),
      set_time = utc_datetime sky (t_events ! (j + 2)),
      max_elevation = altaz_degrees sky sat st (t_events ! (j + 1))\<rparr>"

text \<open>
  The satellite and the two event arrays that a call of \<open>calculate_passes\<close> obtains
  before its loop starts, \<open>None\<close> when the call ends before the loop.
\<close>

definition window_events ::
  "('sat, 't) skyfield \<Rightarrow> world \<Rightarrow> int \<Rightarrow> globals \<Rightarrow> ('sat \<times> 't list \<times> nat list) option" where
  "window_events sky w next_days g =
     (case get_satellite sky w g of
        (Inl err, g') \<Rightarrow> None
      | (Inr sat, g') \<Rightarrow>
          (case load sky ''de421.bsp'' of
             Inl e \<Rightarrow> None
           | Inr eph \<Rightarrow>
               (case datetime_add (utcnow w) (timedelta_days next_days) of
                  Raise x \<Rightarrow> None
                | Return end_time \<Rightarrow>
                    (case find_events sky sat (station_of g') (ts_utc sky (utcnow w))
                            (ts_utc sky end_time) 0 of
                       Inl e \<Rightarrow> None
                     | Inr (t_events, events) \<Rightarrow> Some (sat, t_events, events)))))"

subsection \<open>A concrete run\<close>

text \<open>
  A library and an environment on which the functions can be evaluated: the element file
  holds one record for the default satellite, the clock reads 2026-01-01T00:00:00, and
  the scan of the window finds a set (the satellite is up when the window opens), a pass
  that culminates at 40 degrees, a pass that culminates at 10 degrees, and a rise with no
  set before the window closes.
\<close>

definition example_world :: world where
  "example_world =
     \<lparr>read_tle_file = Some ''CUBESX-HSE 3\<newline>1 A\<newline>2 B\<newline>'',
      utcnow = 63902822400000000\<rparr>"

definition example_skyfield :: "(unit, int) skyfield" where
  "example_skyfield =
     \<lparr>EarthSatellite = (\<lambda>line1 line2 name. Inr ()),
      load = (\<lambda>file. Inr ()),
      ts_utc = (\<lambda>d. d),
      find_events = (\<lambda>sat st t0 t1 alt.
         Inr ([t0 + 5, t0 + 10, t0 + 20, t0 + 30, t0 + 40, t0 + 50, t0 + 60, t0 + 70],
              [2, 0, 1, 2, 0, 1, 2, 0])),
      altaz_degrees = (\<lambda>sat st t. if t = 63902822400000020 then 40 else 10),
      utc_datetime = (\<lambda>t. t)\<rparr>"

definition example_pass :: pass_event where
  "example_pass =
     \<lparr>rise = 63902822400000010, culmination = 63902822400000020,
      set_time = 63902822400000030, max_elevation = 40\<rparr>"


definition example_runtime :: runtime where
  "example_runtime = \<lparr>job_queue = [], logged = []\<rparr>"

text \<open>The same library when the scan finds a culmination and a set but no rise.\<close>

definition example_skyfield_no_rise :: "(unit, int) skyfield" where
  "example_skyfield_no_rise =
     example_skyfield\<lparr>find_events := (\<lambda>sat st t0 t1 alt. Inr ([t0 + 5, t0 + 9], [1, 2]))\<rparr>"



section \<open>Properties\<close>

subsection \<open>Element-set lookup: the first match decides\<close>

text \<open>The substring test is the relation \<open>sublist\<close> of the library.\<close>

lemma str_contains_sublist: "str_contains needle hay = sublist needle hay"
  by (induction hay) (auto simp: sublist_Cons_right)

lemma tle_scan_not_found:
  "\<forall>x\<in>set xs. \<not> str_contains name x \<Longrightarrow> tle_scan name lines (enumerate k xs) = Inl SatelliteNotFound"
  by (induction xs arbitrary: k) auto

lemma tle_scan_first:
  "\<forall>x\<in>set pre. \<not> str_contains name x \<Longrightarrow> str_contains name x \<Longrightarrow>
   tle_scan name lines (enumerate k (pre @ x # post)) =
     (if k + length pre + 2 < length lines
      then Inr (lines ! (k + length pre), lines ! (k + length pre + 1), lines ! (k + length pre + 2))
      else Inl IncompleteTle)"
  by (induction pre arbitrary: k) auto

lemma tle_scan_at:
  assumes "i < length lines" "str_contains name (lines ! i)" "\<forall>j<i. \<not> str_contains name (lines ! j)"
  shows "tle_scan name lines (enumerate 0 lines) =
     (if i + 2 < length lines then Inr (lines ! i, lines ! (i + 1), lines ! (i + 2)) else Inl IncompleteTle)"
proof -
  have split: "lines = take i lines @ lines ! i # drop (Suc i) lines"
    using assms(1) by (simp add: id_take_nth_drop)
  have pre: "\<forall>x\<in>set (take i lines). \<not> str_contains name x"
    using assms(1,3) by (auto simp: in_set_conv_nth)
  have "tle_scan name lines (enumerate 0 (take i lines @ lines ! i # drop (Suc i) lines)) =
     (if 0 + length (take i lines) + 2 < length lines
      then Inr (lines ! (0 + length (take i lines)), lines ! (0 + length (take i lines) + 1), lines ! (0 + length (take i lines) + 2))
      else Inl IncompleteTle)"
    by (rule tle_scan_first [OF pre assms(2)])
  then show ?thesis
    using split assms(1) by (simp add: min_absorb2)
qed

lemma splitlines_examples:
  "splitlines ''a\<newline>b'' = [''a'', ''b'']"
  "splitlines ''a\<newline>'' = [''a'']"
  "splitlines [CHR ''a'', CHR 0x0D, CHR 0x0A, CHR 0x0A, CHR ''b''] = [''a'', [], ''b'']"
  "splitlines [CHR 0x0D] = [[]]"
  "splitlines [] = []"
  by (simp_all add: splitlines_def is_line_boundary_def)

subsection \<open>The loop of calculate_passes, one step at a time\<close>

lemma triple_starts_skip:
  "\<not> (a = 0 \<and> 2 \<le> length rest \<and> rest ! 0 = 1 \<and> rest ! 1 = 2) \<Longrightarrow>
   triple_starts i (a # rest) = triple_starts (Suc i) rest"
proof (cases rest)
  case Nil
  then show ?thesis by simp
next
  case (Cons b rest')
  assume h: "\<not> (a = 0 \<and> 2 \<le> length rest \<and> rest ! 0 = 1 \<and> rest ! 1 = 2)"
  show ?thesis
  proof (cases rest')
    case Nil
    with Cons show ?thesis by simp
  next
    case (Cons c rest'')
    with \<open>rest = b # rest'\<close> h show ?thesis by auto
  qed
qed

lemma triple_starts_hit:
  "triple_starts i (0 # Suc 0 # 2 # rest) = i # triple_starts (i + 3) rest"
  by simp

lemma passes_loop_done:
  "\<not> i < length events \<Longrightarrow> passes_loop sky sat st thr t_events events i acc = Return acc"
  by (subst passes_loop.simps) simp

lemma passes_loop_skip:
  "i < length events \<Longrightarrow>
   \<not> (events ! i = 0 \<and> i + 2 < length events \<and> events ! (i + 1) = 1 \<and> events ! (i + 2) = 2) \<Longrightarrow>
   passes_loop sky sat st thr t_events events i acc =
   passes_loop sky sat st thr t_events events (i + 1) acc"
  by (subst passes_loop.simps) auto

lemma passes_loop_raise:
  "i < length events \<Longrightarrow>
   events ! i = 0 \<and> i + 2 < length events \<and> events ! (i + 1) = 1 \<and> events ! (i + 2) = 2 \<Longrightarrow>
   \<not> i + 2 < length t_events \<Longrightarrow>
   passes_loop sky sat st thr t_events events i acc = Raise IndexError"
  by (subst passes_loop.simps) simp

lemma passes_loop_triple:
  "i < length events \<Longrightarrow>
   events ! i = 0 \<and> i + 2 < length events \<and> events ! (i + 1) = 1 \<and> events ! (i + 2) = 2 \<Longrightarrow>
   i + 2 < length t_events \<Longrightarrow>
   passes_loop sky sat st thr t_events events i acc =
   passes_loop sky sat st thr t_events events (i + 3)
     (if thr \<le> max_elevation (pass_at sky sat st t_events i)
      then acc @ [pass_at sky sat st t_events i] else acc)"
  by (subst passes_loop.simps) (simp add: pass_at_def Let_def)

lemma drop_triple:
  assumes "i + 2 < length events" "events ! i = 0" "events ! (i + 1) = 1" "events ! (i + 2) = 2"
  shows "drop i events = 0 # 1 # 2 # drop (i + 3) events"
proof -
  have a: "drop i events = events ! i # drop (Suc i) events"
    using assms(1) by (simp add: Cons_nth_drop_Suc)
  have b: "drop (Suc i) events = events ! (Suc i) # drop (Suc (Suc i)) events"
    using assms(1) by (simp add: Cons_nth_drop_Suc)
  have c: "drop (Suc (Suc i)) events = events ! (Suc (Suc i)) # drop (Suc (Suc (Suc i))) events"
    using assms(1) by (simp add: Cons_nth_drop_Suc)
  have e: "i + 3 = Suc (Suc (Suc i))" by simp
  show ?thesis
    using assms(2-4) unfolding a b c e by simp
qed

lemma passes_loop_char:
  "i \<le> length events \<Longrightarrow>
   passes_loop sky sat st thr t_events events i acc =
     (if \<forall>j\<in>set (triple_starts i (drop i events)). j + 2 < length t_events
      then Return (acc @ filter (\<lambda>p. thr \<le> max_elevation p)
                          (map (pass_at sky sat st t_events) (triple_starts i (drop i events))))
      else Raise IndexError)"
proof (induction "length events - i" arbitrary: i acc rule: less_induct)
  case less
  note prems = less.prems
  show ?case
  proof (cases "i < length events")
    case False
    with prems have "drop i events = []" by simp
    with False show ?thesis by (simp add: passes_loop_done)
  next
    case lt: True
    show ?thesis
    proof (cases "events ! i = 0 \<and> i + 2 < length events \<and> events ! (i + 1) = 1 \<and> events ! (i + 2) = 2")
      case tr: True
      then have d: "drop i events = 0 # 1 # 2 # drop (i + 3) events"
        by (simp add: drop_triple)
      have ts: "triple_starts i (drop i events) = i # triple_starts (i + 3) (drop (i + 3) events)"
        unfolding d by simp
      show ?thesis
      proof (cases "i + 2 < length t_events")
        case False
        then show ?thesis
          using passes_loop_raise [OF lt tr False] ts by simp
      next
        case inr: True
        have le: "i + 3 \<le> length events" using tr by simp
        define p where "p = pass_at sky sat st t_events i"
        define acc' where "acc' = (if thr \<le> max_elevation p then acc @ [p] else acc)"
        have step: "passes_loop sky sat st thr t_events events i acc =
                    passes_loop sky sat st thr t_events events (i + 3) acc'"
          unfolding acc'_def p_def by (rule passes_loop_triple [OF lt tr inr])
        have ih: "passes_loop sky sat st thr t_events events (i + 3) acc' =
           (if \<forall>j\<in>set (triple_starts (i + 3) (drop (i + 3) events)). j + 2 < length t_events
            then Return (acc' @ filter (\<lambda>p. thr \<le> max_elevation p)
                   (map (pass_at sky sat st t_events) (triple_starts (i + 3) (drop (i + 3) events))))
            else Raise IndexError)"
          using lt le by (intro less.hyps) auto
        show ?thesis
          unfolding step ih ts using inr by (simp add: acc'_def p_def)
      qed
    next
      case False
      have d: "drop i events = events ! i # drop (Suc i) events"
        using lt by (simp add: Cons_nth_drop_Suc)
      have nt: "\<not> (events ! i = 0 \<and> 2 \<le> length (drop (Suc i) events) \<and> drop (Suc i) events ! 0 = 1 \<and> drop (Suc i) events ! 1 = 2)"
        using False lt by auto
      have ts: "triple_starts i (drop i events) = triple_starts (Suc i) (drop (Suc i) events)"
        unfolding d by (rule triple_starts_skip [OF nt])
      have le: "i + 1 \<le> length events" using lt by simp
      show ?thesis
        using passes_loop_skip [OF lt False, of sky sat st thr t_events acc] ts
          less.hyps [of "i + 1" acc] lt le
        by simp
    qed
  qed
qed

subsection \<open>The indices of the complete triples\<close>

lemma triple_starts_sound:
  "j \<in> set (triple_starts i xs) \<Longrightarrow>
   i \<le> j \<and> j + 2 < i + length xs \<and> xs ! (j - i) = 0 \<and> xs ! (j - i + 1) = 1 \<and> xs ! (j - i + 2) = 2"
proof (induction i xs rule: triple_starts.induct)
  case (1 i a b c rest)
  show ?case
  proof (cases "a = 0 \<and> b = 1 \<and> c = 2")
    case True
    with "1.prems" have "j = i \<or> j \<in> set (triple_starts (i + 3) rest)" by simp
    then show ?thesis
    proof
      assume "j = i"
      with True show ?thesis by simp
    next
      assume "j \<in> set (triple_starts (i + 3) rest)"
      from "1.IH"(1) [OF True this]
      have h: "i + 3 \<le> j" "j + 2 < i + 3 + length rest" "rest ! (j - (i + 3)) = 0"
        "rest ! (j - (i + 3) + 1) = 1" "rest ! (j - (i + 3) + 2) = 2" by auto
      have e: "j - i = Suc (Suc (Suc (j - (i + 3))))" using h(1) by simp
      show ?thesis using h unfolding e by simp
    qed
  next
    case False
    with "1.prems" have "j \<in> set (triple_starts (i + 1) (b # c # rest))" by auto
    from "1.IH"(2) [OF False this]
    have h: "i + 1 \<le> j" "j + 2 < i + 1 + length (b # c # rest)" "(b # c # rest) ! (j - (i + 1)) = 0"
        "(b # c # rest) ! (j - (i + 1) + 1) = 1" "(b # c # rest) ! (j - (i + 1) + 2) = 2" by auto
    have e: "j - i = Suc (j - (i + 1))" using h(1) by simp
    show ?thesis using h unfolding e by simp
  qed
qed simp_all


lemma triple_starts_no_rise:
  "0 \<notin> set xs \<Longrightarrow> triple_starts i xs = []"
  by (induction i xs rule: triple_starts.induct) auto

lemma triple_starts_shift:
  "triple_starts (i + k) xs = map (\<lambda>j. j + k) (triple_starts i xs)"
proof (induction i xs rule: triple_starts.induct)
  case (1 i a b c rest)
  have a: "i + k + 3 = i + 3 + k" "i + k + 1 = i + 1 + k" by simp_all
  show ?case
  proof (cases "a = 0 \<and> b = 1 \<and> c = 2")
    case True
    have "triple_starts (i + k) (a # b # c # rest) = (i + k) # triple_starts (i + k + 3) rest"
      using True by simp
    also have "\<dots> = (i + k) # triple_starts (i + 3 + k) rest"
      by (simp only: a)
    also have "\<dots> = (i + k) # map (\<lambda>j. j + k) (triple_starts (i + 3) rest)"
      by (simp only: "1.IH"(1) [OF True])
    also have "\<dots> = map (\<lambda>j. j + k) (triple_starts i (a # b # c # rest))"
      using True by simp
    finally show ?thesis .
  next
    case False
    have "triple_starts (i + k) (a # b # c # rest) = triple_starts (i + k + 1) (b # c # rest)"
      using False by auto
    also have "\<dots> = triple_starts (i + 1 + k) (b # c # rest)"
      by (simp only: a)
    also have "\<dots> = map (\<lambda>j. j + k) (triple_starts (i + 1) (b # c # rest))"
      by (simp only: "1.IH"(2) [OF False])
    also have "\<dots> = map (\<lambda>j. j + k) (triple_starts i (a # b # c # rest))"
      using False by auto
    finally show ?thesis .
  qed
qed simp_all

lemma triple_starts_no_set:
  "2 \<notin> set xs \<Longrightarrow> triple_starts i xs = []"
  by (induction i xs rule: triple_starts.induct) auto

lemma triple_starts_append_no_set:
  "2 \<notin> set tail \<Longrightarrow> triple_starts i (xs @ tail) = triple_starts i xs"
proof (induction i xs rule: triple_starts.induct)
  case (1 i a b c rest)
  then show ?case by simp
next
  case (2 i a b)
  have n1: "\<not> (a = 0 \<and> 2 \<le> length (b # tail) \<and> (b # tail) ! 0 = 1 \<and> (b # tail) ! 1 = 2)"
    using "2.prems" by (cases tail) auto
  have n2: "\<not> (b = 0 \<and> 2 \<le> length tail \<and> tail ! 0 = 1 \<and> tail ! 1 = 2)"
    using "2.prems" by (metis nth_mem one_less_numeral_iff semiring_norm(76) less_le_trans)
  have "triple_starts i (a # b # tail) = triple_starts (Suc i) (b # tail)"
    using n1 by (rule triple_starts_skip)
  also have "\<dots> = triple_starts (Suc (Suc i)) tail"
    using n2 by (rule triple_starts_skip)
  finally show ?case using "2.prems" by (simp add: triple_starts_no_set)
next
  case (3 i a)
  have "\<not> (a = 0 \<and> 2 \<le> length tail \<and> tail ! 0 = 1 \<and> tail ! 1 = 2)"
    using "3.prems" by (metis nth_mem one_less_numeral_iff semiring_norm(76) less_le_trans)
  then have "triple_starts i (a # tail) = triple_starts (Suc i) tail"
    by (rule triple_starts_skip)
  then show ?case using "3.prems" by (simp add: triple_starts_no_set)
next
  case (4 i)
  then show ?case by (simp add: triple_starts_no_set)
qed

subsection \<open>calculate_passes around its loop\<close>

lemma get_tle_for_satellite_globals:
  "snd (get_tle_for_satellite w g) = g\<lparr>tle_content := stored_text w g\<rparr>"
  by (simp add: get_tle_for_satellite_def stored_text_def split: option.splits)

lemma get_tle_for_satellite_result:
  "fst (get_tle_for_satellite w g) =
     (case stored_text w g of None \<Rightarrow> Inl TleFileNotFound
      | Some text \<Rightarrow> tle_lookup (SAT_NAME g) text)"
  by (simp add: get_tle_for_satellite_def stored_text_def split: option.splits)

lemma get_satellite_globals:
  "snd (get_satellite sky w g) = g\<lparr>tle_content := stored_text w g\<rparr>"
  using get_tle_for_satellite_globals [of w g]
  by (auto simp: get_satellite_def split: prod.splits sum.splits)

lemma station_of_tle_content [simp]: "station_of (g\<lparr>tle_content := c\<rparr>) = station_of g"
  by (simp add: station_of_def)

lemma calculate_passes_globals:
  "snd (calculate_passes sky w next_days g) = g\<lparr>tle_content := stored_text w g\<rparr>"
  using get_satellite_globals [of sky w g]
  by (auto simp: calculate_passes_def Let_def split: prod.splits sum.splits py.splits)

lemma calculate_passes_events:
  assumes "window_events sky w next_days g = Some (sat, t_events, events)"
  shows "fst (calculate_passes sky w next_days g) =
     (case passes_loop sky sat (station_of g) (ALTITUDE_THRESHOLD g) t_events events 0 [] of
        Raise x \<Rightarrow> Raise x
      | Return passes \<Rightarrow> Return (Inr passes))"
  using assms get_satellite_globals [of sky w g]
  by (auto simp: calculate_passes_def window_events_def Let_def
           split: prod.splits sum.splits py.splits)

lemma calculate_passes_returns_events:
  assumes "fst (calculate_passes sky w next_days g) = Return (Inr passes)"
  shows "\<exists>sat t_events events. window_events sky w next_days g = Some (sat, t_events, events)"
  using assms
  by (auto simp: calculate_passes_def window_events_def Let_def
           split: prod.splits sum.splits py.splits)

lemma calculate_passes_early:
  assumes "fst (get_satellite sky w g) = Inl err"
  shows "fst (calculate_passes sky w next_days g) = Return (Inl err)"
  using assms by (auto simp: calculate_passes_def split: prod.splits sum.splits)

subsection \<open>The concrete run, evaluated\<close>

lemma example_lookup:
  "get_tle_for_satellite example_world initial_globals =
     (Inr (''CUBESX-HSE 3'', ''1 A'', ''2 B''),
      initial_globals\<lparr>tle_content := Some ''CUBESX-HSE 3\<newline>1 A\<newline>2 B\<newline>''\<rparr>)"
  by (simp add: get_tle_for_satellite_def example_world_def initial_globals_def tle_lookup_def
      splitlines_def is_line_boundary_def)

lemma example_window:
  "window_events example_skyfield example_world 3 initial_globals =
     Some ((), [63902822400000005, 63902822400000010, 63902822400000020, 63902822400000030,
                63902822400000040, 63902822400000050, 63902822400000060, 63902822400000070],
               [2, 0, 1, 2, 0, 1, 2, 0])"
  by (simp add: window_events_def get_satellite_def example_lookup)
     (simp add: example_skyfield_def example_world_def datetime_add_def datetime_valid_def
        datetime_max_def timedelta_days_def)

lemma example_starts: "triple_starts 0 [2, 0, 1, 2, 0, 1, 2, 0] = [1, 4]"
  by simp

lemma example_passes:
  "fst (calculate_passes example_skyfield example_world 3 initial_globals) = Return (Inr [example_pass])"
  by (simp add: calculate_passes_events [OF example_window] passes_loop_char example_starts)
     (simp add: pass_at_def example_skyfield_def example_pass_def initial_globals_def)

subsection \<open>The threshold\<close>

lemma calculate_passes_char:
  assumes ev: "window_events sky w next_days g = Some (sat, t_events, events)"
    and ret: "fst (calculate_passes sky w next_days g) = Return (Inr passes)"
  shows "(\<forall>j\<in>set (triple_starts 0 events). j + 2 < length t_events) \<and>
         passes = filter (\<lambda>p. ALTITUDE_THRESHOLD g \<le> max_elevation p)
                    (map (pass_at sky sat (station_of g) t_events) (triple_starts 0 events))"
proof -
  have "passes_loop sky sat (station_of g) (ALTITUDE_THRESHOLD g) t_events events 0 [] = Return passes"
    using ret unfolding calculate_passes_events [OF ev] by (simp split: py.splits)
  then show ?thesis
    by (simp add: passes_loop_char split: if_splits)
qed

lemma station_of_threshold [simp]:
  "station_of (g\<lparr>ALTITUDE_THRESHOLD := x\<rparr>) = station_of g"
  by (simp add: station_of_def)

lemma window_events_threshold:
  "window_events sky w next_days (g\<lparr>ALTITUDE_THRESHOLD := x\<rparr>) = window_events sky w next_days g"
  by (simp add: window_events_def get_satellite_def get_tle_for_satellite_def
      split: option.splits sum.splits prod.splits py.splits)

text \<open>
  Claim C1. Every pass that \<open>calculate_passes\<close> returns has a recorded peak elevation of at
  least \<open>ALTITUDE_THRESHOLD\<close>, and the returned list is exactly the list of the triples
  that the scan finds with those of a lower peak left out: a triple below the threshold
  contributes no pass.
\<close>

theorem calculate_passes_threshold:
  assumes "fst (calculate_passes sky w next_days g) = Return (Inr passes)"
  shows "(\<forall>p\<in>set passes. ALTITUDE_THRESHOLD g \<le> max_elevation p) \<and>
         (\<exists>sat t_events events.
            window_events sky w next_days g = Some (sat, t_events, events) \<and>
            passes = filter (\<lambda>p. ALTITUDE_THRESHOLD g \<le> max_elevation p)
                       (map (pass_at sky sat (station_of g) t_events) (triple_starts 0 events)))"
proof -
  obtain sat t_events events
    where ev: "window_events sky w next_days g = Some (sat, t_events, events)"
    using calculate_passes_returns_events [OF assms] by blast
  have eq: "passes = filter (\<lambda>p. ALTITUDE_THRESHOLD g \<le> max_elevation p)
                       (map (pass_at sky sat (station_of g) t_events) (triple_starts 0 events))"
    using calculate_passes_char [OF ev assms] by simp
  have "\<forall>p\<in>set passes. ALTITUDE_THRESHOLD g \<le> max_elevation p"
    by (subst eq) simp
  with ev eq show ?thesis by blast
qed

theorem calculate_passes_threshold_witness:
  "fst (calculate_passes example_skyfield example_world 3 initial_globals) = Return (Inr [example_pass]) \<and>
   ALTITUDE_THRESHOLD initial_globals \<le> max_elevation example_pass \<and>
   (\<exists>sat t_events events.
      window_events example_skyfield example_world 3 initial_globals = Some (sat, t_events, events) \<and>
      [example_pass] = filter (\<lambda>p. ALTITUDE_THRESHOLD initial_globals \<le> max_elevation p)
         (map (pass_at example_skyfield sat (station_of initial_globals) t_events)
              (triple_starts 0 events)))"
  using calculate_passes_threshold [OF example_passes] example_passes by simp

text \<open>
  Claim C6. When the scan of the window returns no rise event (code 0), the call returns
  the empty list of passes and no error.
\<close>

theorem calculate_passes_no_rise:
  assumes "window_events sky w next_days g = Some (sat, t_events, events)"
    and "0 \<notin> set events"
  shows "fst (calculate_passes sky w next_days g) = Return (Inr [])"
  using assms(2) by (simp add: calculate_passes_events [OF assms(1)] passes_loop_char triple_starts_no_rise)

lemma example_window_no_rise:
  "window_events example_skyfield_no_rise example_world 3 initial_globals =
     Some ((), [63902822400000005, 63902822400000009], [1, 2])"
  by (simp add: window_events_def get_satellite_def example_lookup)
     (simp add: example_skyfield_no_rise_def example_skyfield_def example_world_def
        datetime_add_def datetime_valid_def datetime_max_def timedelta_days_def)

theorem calculate_passes_no_rise_witness:
  "(0::nat) \<notin> set [1, 2] \<and>
   fst (calculate_passes example_skyfield_no_rise example_world 3 initial_globals) = Return (Inr [])"
proof -
  have h: "(0::nat) \<notin> set [1, 2]" by simp
  show ?thesis
    using h calculate_passes_no_rise [OF example_window_no_rise h] by simp
qed

text \<open>
  Claim C7. With the same library, environment and other settings, raising the threshold
  from \<open>\<theta>\<close> to \<open>\<theta>'\<close> returns the passes of the lower threshold whose peak is at least
  \<open>\<theta>'\<close>, so a subset of them.
\<close>

theorem calculate_passes_threshold_mono:
  assumes le: "\<theta> \<le> \<theta>'"
    and lo: "fst (calculate_passes sky w next_days (g\<lparr>ALTITUDE_THRESHOLD := \<theta>\<rparr>)) = Return (Inr passes)"
  shows "\<exists>passes'. fst (calculate_passes sky w next_days (g\<lparr>ALTITUDE_THRESHOLD := \<theta>'\<rparr>)) = Return (Inr passes') \<and>
           passes' = filter (\<lambda>p. \<theta>' \<le> max_elevation p) passes \<and> set passes' \<subseteq> set passes"
proof -
  obtain sat t_events events
    where ev: "window_events sky w next_days (g\<lparr>ALTITUDE_THRESHOLD := \<theta>\<rparr>) = Some (sat, t_events, events)"
    using calculate_passes_returns_events [OF lo] by blast
  then have ev': "window_events sky w next_days (g\<lparr>ALTITUDE_THRESHOLD := \<theta>'\<rparr>) = Some (sat, t_events, events)"
    by (simp add: window_events_threshold)
  let ?all = "map (pass_at sky sat (station_of g) t_events) (triple_starts 0 events)"
  have st: "station_of (g\<lparr>ALTITUDE_THRESHOLD := x\<rparr>) = station_of g" for x
    by (simp add: station_of_def)
  have c: "\<forall>j\<in>set (triple_starts 0 events). j + 2 < length t_events"
    and p: "passes = filter (\<lambda>p. \<theta> \<le> max_elevation p) ?all"
    using calculate_passes_char [OF ev lo] by (simp_all add: st)
  have r: "fst (calculate_passes sky w next_days (g\<lparr>ALTITUDE_THRESHOLD := \<theta>'\<rparr>)) =
           Return (Inr (filter (\<lambda>p. \<theta>' \<le> max_elevation p) ?all))"
    using c by (simp add: calculate_passes_events [OF ev'] passes_loop_char st)
  have "filter (\<lambda>p. \<theta>' \<le> max_elevation p) ?all = filter (\<lambda>p. \<theta>' \<le> max_elevation p) passes"
    unfolding p using le by (auto intro: filter_cong)
  with r show ?thesis by simp
qed

lemma initial_threshold: "initial_globals\<lparr>ALTITUDE_THRESHOLD := 15\<rparr> = initial_globals"
  by (simp add: initial_globals_def)

theorem calculate_passes_threshold_mono_witness:
  "(15::real) \<le> 45 \<and>
   (\<exists>passes'. fst (calculate_passes example_skyfield example_world 3
                      (initial_globals\<lparr>ALTITUDE_THRESHOLD := 45\<rparr>)) = Return (Inr passes') \<and>
      passes' = filter (\<lambda>p. 45 \<le> max_elevation p) [example_pass] \<and>
      set passes' \<subseteq> set [example_pass])"
proof -
  have h: "(15::real) \<le> 45" by simp
  have lo: "fst (calculate_passes example_skyfield example_world 3
                   (initial_globals\<lparr>ALTITUDE_THRESHOLD := 15\<rparr>)) = Return (Inr [example_pass])"
    by (simp only: initial_threshold example_passes)
  show ?thesis
    using h calculate_passes_threshold_mono [OF h lo] by simp
qed

subsection \<open>Chronological order\<close>













subsection \<open>Complete triples only\<close>

lemma pass_at_Cons: "pass_at sky sat st (t # ts) (Suc j) = pass_at sky sat st ts j"
  by (simp add: pass_at_def)

lemma passes_loop_skip_first:
  assumes "\<not> (e = 0 \<and> 2 \<le> length es \<and> es ! 0 = 1 \<and> es ! 1 = 2)"
  shows "passes_loop sky sat st thr (t # ts) (e # es) 0 [] = passes_loop sky sat st thr ts es 0 []"
proof -
  have sk: "triple_starts 0 (e # es) = triple_starts (Suc 0) es"
    using assms by (rule triple_starts_skip)
  have sh: "triple_starts (Suc 0) es = map Suc (triple_starts 0 es)"
    using triple_starts_shift [of 0 1 es] by simp
  show ?thesis
    by (simp add: passes_loop_char sk sh o_def pass_at_Cons)
qed

lemma pass_at_append:
  "j + 2 < length ts \<Longrightarrow> pass_at sky sat st (ts @ ts') j = pass_at sky sat st ts j"
  by (simp add: pass_at_def nth_append)

lemma passes_loop_drop_tail:
  assumes "2 \<notin> set es'" and len: "length ts = length es"
  shows "passes_loop sky sat st thr (ts @ ts') (es @ es') 0 [] = passes_loop sky sat st thr ts es 0 []"
proof -
  have ap: "triple_starts 0 (es @ es') = triple_starts 0 es"
    using assms(1) by (rule triple_starts_append_no_set)
  have inr: "j + 2 < length ts" if "j \<in> set (triple_starts 0 es)" for j
    using triple_starts_sound [OF that] len by simp
  have m: "map (pass_at sky sat st (ts @ ts')) (triple_starts 0 es) =
           map (pass_at sky sat st ts) (triple_starts 0 es)"
    using inr by (simp add: pass_at_append)
  have c1: "\<forall>j\<in>set (triple_starts 0 es). j + 2 < length (ts @ ts')"
    using inr by fastforce
  have c2: "\<forall>j\<in>set (triple_starts 0 es). j + 2 < length ts"
    using inr by blast
  show ?thesis
    unfolding passes_loop_char [OF le0] drop_0 ap m using c1 c2 by simp
qed

text \<open>
  Claim C10. Every returned pass is built from three consecutive events with the codes
  0, 1, 2 in this order. An event that does not begin such a triple is passed over by
  itself and gives no output: a first event that begins no triple leaves the result of
  the events after it (so a culmination or a set at the start of the window is skipped),
  and events appended at the end that contain no set leave the result of the events
  before them (so a rise with no set before the end of the window gives no pass).
\<close>

theorem calculate_passes_complete_triples:
  assumes ev: "window_events sky w next_days g = Some (sat, t_events, events)"
    and ret: "fst (calculate_passes sky w next_days g) = Return (Inr passes)"
  shows "(\<forall>p\<in>set passes. \<exists>j. j + 2 < length events \<and> events ! j = 0 \<and> events ! (j + 1) = 1 \<and>
            events ! (j + 2) = 2 \<and> p = pass_at sky sat (station_of g) t_events j) \<and>
         (\<forall>t ts e es. \<not> (e = 0 \<and> 2 \<le> length es \<and> es ! 0 = 1 \<and> es ! 1 = 2) \<longrightarrow>
            passes_loop sky sat (station_of g) (ALTITUDE_THRESHOLD g) (t # ts) (e # es) 0 [] =
            passes_loop sky sat (station_of g) (ALTITUDE_THRESHOLD g) ts es 0 []) \<and>
         (\<forall>ts es ts' es'. 2 \<notin> set es' \<and> length ts = length es \<longrightarrow>
            passes_loop sky sat (station_of g) (ALTITUDE_THRESHOLD g) (ts @ ts') (es @ es') 0 [] =
            passes_loop sky sat (station_of g) (ALTITUDE_THRESHOLD g) ts es 0 [])"
proof -
  have eq: "passes = filter (\<lambda>p. ALTITUDE_THRESHOLD g \<le> max_elevation p)
              (map (pass_at sky sat (station_of g) t_events) (triple_starts 0 events))"
    using calculate_passes_char [OF ev ret] by simp
  have "\<exists>j. j + 2 < length events \<and> events ! j = 0 \<and> events ! (j + 1) = 1 \<and>
            events ! (j + 2) = 2 \<and> p = pass_at sky sat (station_of g) t_events j"
    if "p \<in> set passes" for p
  proof -
    from that obtain j where j: "j \<in> set (triple_starts 0 events)"
      and p: "p = pass_at sky sat (station_of g) t_events j"
      unfolding eq by auto
    from triple_starts_sound [OF j] p show ?thesis by auto
  qed
  then have p1: "\<forall>p\<in>set passes. \<exists>j. j + 2 < length events \<and> events ! j = 0 \<and>
      events ! (j + 1) = 1 \<and> events ! (j + 2) = 2 \<and> p = pass_at sky sat (station_of g) t_events j"
    by (rule ballI)
  have p2: "\<forall>t ts e es. \<not> (e = 0 \<and> 2 \<le> length es \<and> es ! 0 = 1 \<and> es ! 1 = 2) \<longrightarrow>
      passes_loop sky sat (station_of g) (ALTITUDE_THRESHOLD g) (t # ts) (e # es) 0 [] =
      passes_loop sky sat (station_of g) (ALTITUDE_THRESHOLD g) ts es 0 []"
    by (intro allI impI) (rule passes_loop_skip_first)
  have p3: "\<forall>ts es ts' es'. 2 \<notin> set es' \<and> length ts = length es \<longrightarrow>
      passes_loop sky sat (station_of g) (ALTITUDE_THRESHOLD g) (ts @ ts') (es @ es') 0 [] =
      passes_loop sky sat (station_of g) (ALTITUDE_THRESHOLD g) ts es 0 []"
    by (intro allI impI, elim conjE) (rule passes_loop_drop_tail; assumption)
  from p1 p2 p3 show ?thesis by (intro conjI)
qed

theorem calculate_passes_complete_triples_witness:
  "(\<exists>j. j + 2 < length [2, 0, 1, 2, 0, 1, 2, 0::nat] \<and> [2, 0, 1, 2, 0, 1, 2, 0::nat] ! j = 0 \<and>
        [2, 0, 1, 2, 0, 1, 2, 0::nat] ! (j + 1) = 1 \<and> [2, 0, 1, 2, 0, 1, 2, 0::nat] ! (j + 2) = 2 \<and>
        example_pass = pass_at example_skyfield () (station_of initial_globals)
          [63902822400000005, 63902822400000010, 63902822400000020, 63902822400000030,
        63902822400000040, 63902822400000050, 63902822400000060, 63902822400000070] j) \<and>
   passes_loop example_skyfield () (station_of initial_globals) (ALTITUDE_THRESHOLD initial_globals)
       (63902822400000005 # [63902822400000010, 63902822400000020, 63902822400000030,
        63902822400000040, 63902822400000050, 63902822400000060, 63902822400000070]) (2 # [0, 1, 2, 0, 1, 2, 0]) 0 [] =
   passes_loop example_skyfield () (station_of initial_globals) (ALTITUDE_THRESHOLD initial_globals)
       [63902822400000010, 63902822400000020, 63902822400000030,
        63902822400000040, 63902822400000050, 63902822400000060, 63902822400000070] [0, 1, 2, 0, 1, 2, 0] 0 [] \<and>
   passes_loop example_skyfield () (station_of initial_globals) (ALTITUDE_THRESHOLD initial_globals)
       ([63902822400000010, 63902822400000020, 63902822400000030] @ [63902822400000040])
       ([0, 1, 2] @ [0]) 0 [] =
   passes_loop example_skyfield () (station_of initial_globals) (ALTITUDE_THRESHOLD initial_globals)
       [63902822400000010, 63902822400000020, 63902822400000030] [0, 1, 2] 0 []"
proof -
  note t = calculate_passes_complete_triples [OF example_window example_passes]
  from t have a: "\<forall>p\<in>set [example_pass]. \<exists>j. j + 2 < length [2, 0, 1, 2, 0, 1, 2, 0::nat] \<and>
        [2, 0, 1, 2, 0, 1, 2, 0::nat] ! j = 0 \<and>
        [2, 0, 1, 2, 0, 1, 2, 0::nat] ! (j + 1) = 1 \<and> [2, 0, 1, 2, 0, 1, 2, 0::nat] ! (j + 2) = 2 \<and>
        p = pass_at example_skyfield () (station_of initial_globals)
          [63902822400000005, 63902822400000010, 63902822400000020, 63902822400000030,
        63902822400000040, 63902822400000050, 63902822400000060, 63902822400000070] j"
    by (rule conjunct1)
  from t have b: "\<forall>t ts e es. \<not> (e = 0 \<and> 2 \<le> length es \<and> es ! 0 = 1 \<and> es ! 1 = 2) \<longrightarrow>
      passes_loop example_skyfield () (station_of initial_globals) (ALTITUDE_THRESHOLD initial_globals) (t # ts) (e # es) 0 [] =
      passes_loop example_skyfield () (station_of initial_globals) (ALTITUDE_THRESHOLD initial_globals) ts es 0 []"
    by (rule conjunct1 [OF conjunct2])
  from t have c: "\<forall>ts es ts' es'. 2 \<notin> set es' \<and> length ts = length es \<longrightarrow>
      passes_loop example_skyfield () (station_of initial_globals) (ALTITUDE_THRESHOLD initial_globals) (ts @ ts') (es @ es') 0 [] =
      passes_loop example_skyfield () (station_of initial_globals) (ALTITUDE_THRESHOLD initial_globals) ts es 0 []"
    by (rule conjunct2 [OF conjunct2])
  have b': "passes_loop example_skyfield () (station_of initial_globals) (ALTITUDE_THRESHOLD initial_globals)
       (63902822400000005 # [63902822400000010, 63902822400000020, 63902822400000030,
        63902822400000040, 63902822400000050, 63902822400000060, 63902822400000070]) (2 # [0, 1, 2, 0, 1, 2, 0]) 0 [] =
     passes_loop example_skyfield () (station_of initial_globals) (ALTITUDE_THRESHOLD initial_globals)
       [63902822400000010, 63902822400000020, 63902822400000030,
        63902822400000040, 63902822400000050, 63902822400000060, 63902822400000070] [0, 1, 2, 0, 1, 2, 0] 0 []"
    by (rule b [rule_format]) simp
  have c': "passes_loop example_skyfield () (station_of initial_globals) (ALTITUDE_THRESHOLD initial_globals)
       ([63902822400000010, 63902822400000020, 63902822400000030] @ [63902822400000040])
       ([0, 1, 2] @ [0]) 0 [] =
     passes_loop example_skyfield () (station_of initial_globals) (ALTITUDE_THRESHOLD initial_globals)
       [63902822400000010, 63902822400000020, 63902822400000030] [0, 1, 2] 0 []"
    by (rule c [rule_format]) simp
  from a have a': "\<exists>j. j + 2 < length [2, 0, 1, 2, 0, 1, 2, 0::nat] \<and>
        [2, 0, 1, 2, 0, 1, 2, 0::nat] ! j = 0 \<and>
        [2, 0, 1, 2, 0, 1, 2, 0::nat] ! (j + 1) = 1 \<and> [2, 0, 1, 2, 0, 1, 2, 0::nat] ! (j + 2) = 2 \<and>
        example_pass = pass_at example_skyfield () (station_of initial_globals)
          [63902822400000005, 63902822400000010, 63902822400000020, 63902822400000030,
        63902822400000040, 63902822400000050, 63902822400000060, 63902822400000070] j"
    by simp
  from a' b' c' show ?thesis by (intro conjI)
qed

subsection \<open>Lookup results\<close>

text \<open>
  Claim C3. For the element text that the call works on, with \<open>lines\<close> its lines: when
  line \<open>i\<close> is the first line that contains \<open>SAT_NAME\<close> as a substring, the call returns
  lines \<open>i\<close>, \<open>i + 1\<close> and \<open>i + 2\<close> if two lines follow line \<open>i\<close> and the
  incomplete-data error if fewer do; when no line contains the name, it returns the
  not-found error.
\<close>

theorem get_tle_for_satellite_first_match:
  assumes "stored_text w g = Some text"
  shows "(\<forall>i. i < length (splitlines text) \<and> sublist (SAT_NAME g) (splitlines text ! i) \<and>
              (\<forall>j<i. \<not> sublist (SAT_NAME g) (splitlines text ! j)) \<longrightarrow>
            fst (get_tle_for_satellite w g) =
              (if i + 2 < length (splitlines text)
               then Inr (splitlines text ! i, splitlines text ! (i + 1), splitlines text ! (i + 2))
               else Inl IncompleteTle)) \<and>
         ((\<forall>l\<in>set (splitlines text). \<not> sublist (SAT_NAME g) l) \<longrightarrow>
            fst (get_tle_for_satellite w g) = Inl SatelliteNotFound)"
proof -
  have r: "fst (get_tle_for_satellite w g) =
           tle_scan (SAT_NAME g) (splitlines text) (enumerate 0 (splitlines text))"
    using assms by (simp add: get_tle_for_satellite_result tle_lookup_def Let_def)
  have found: "fst (get_tle_for_satellite w g) =
              (if i + 2 < length (splitlines text)
               then Inr (splitlines text ! i, splitlines text ! (i + 1), splitlines text ! (i + 2))
               else Inl IncompleteTle)"
    if "i < length (splitlines text) \<and> sublist (SAT_NAME g) (splitlines text ! i) \<and>
        (\<forall>j<i. \<not> sublist (SAT_NAME g) (splitlines text ! j))" for i
    unfolding r using that by (intro tle_scan_at) (simp_all add: str_contains_sublist)
  have missing: "fst (get_tle_for_satellite w g) = Inl SatelliteNotFound"
    if "\<forall>l\<in>set (splitlines text). \<not> sublist (SAT_NAME g) l"
    unfolding r using that by (intro tle_scan_not_found) (simp add: str_contains_sublist)
  from found missing show ?thesis by blast
qed

lemma example_lines:
  "splitlines ''CUBESX-HSE 3\<newline>1 A\<newline>2 B\<newline>'' = [''CUBESX-HSE 3'', ''1 A'', ''2 B'']"
  by (simp add: splitlines_def is_line_boundary_def)

lemma example_stored_text:
  "stored_text example_world (initial_globals\<lparr>SAT_NAME := name\<rparr>) =
     Some ''CUBESX-HSE 3\<newline>1 A\<newline>2 B\<newline>''"
  by (simp add: stored_text_def example_world_def initial_globals_def)

lemma initial_name: "initial_globals\<lparr>SAT_NAME := ''CUBESX-HSE 3''\<rparr> = initial_globals"
  by (simp add: initial_globals_def)

theorem get_tle_for_satellite_first_match_witness:
  "fst (get_tle_for_satellite example_world (initial_globals\<lparr>SAT_NAME := ''CUBESX-HSE 3''\<rparr>)) =
     Inr (''CUBESX-HSE 3'', ''1 A'', ''2 B'') \<and>
   fst (get_tle_for_satellite example_world (initial_globals\<lparr>SAT_NAME := ''1 A''\<rparr>)) =
     Inl IncompleteTle \<and>
   fst (get_tle_for_satellite example_world (initial_globals\<lparr>SAT_NAME := ''ISS''\<rparr>)) =
     Inl SatelliteNotFound"
proof -
  note found = get_tle_for_satellite_first_match [OF example_stored_text, THEN conjunct1, rule_format]
  note missing = get_tle_for_satellite_first_match [OF example_stored_text, THEN conjunct2]
  have a: "fst (get_tle_for_satellite example_world (initial_globals\<lparr>SAT_NAME := ''CUBESX-HSE 3''\<rparr>)) =
     Inr (''CUBESX-HSE 3'', ''1 A'', ''2 B'')"
    using found [of 0 "''CUBESX-HSE 3''"]
    by (simp add: example_lines str_contains_sublist [symmetric])
  have b: "fst (get_tle_for_satellite example_world (initial_globals\<lparr>SAT_NAME := ''1 A''\<rparr>)) =
     Inl IncompleteTle"
    using found [of 1 "''1 A''"]
    by (simp add: example_lines str_contains_sublist [symmetric])
  have c: "fst (get_tle_for_satellite example_world (initial_globals\<lparr>SAT_NAME := ''ISS''\<rparr>)) =
     Inl SatelliteNotFound"
  proof -
    have "\<forall>l\<in>set (splitlines ''CUBESX-HSE 3\<newline>1 A\<newline>2 B\<newline>''). \<not> sublist ''ISS'' l"
      by (simp add: example_lines str_contains_sublist [symmetric])
    with missing [of "''ISS''"] show ?thesis by simp
  qed
  from a b c show ?thesis by (intro conjI)
qed

subsection \<open>Failures and effects on the module state\<close>

lemma get_satellite_result:
  "fst (get_satellite sky w g) =
     (case stored_text w g of
        None \<Rightarrow> Inl TleFileNotFound
      | Some text \<Rightarrow>
          (case tle_lookup (SAT_NAME g) text of
             Inl err \<Rightarrow> Inl err
           | Inr (name_line, tle_line1, tle_line2) \<Rightarrow>
               (case EarthSatellite sky tle_line1 tle_line2 (SAT_NAME g) of
                  Inl e \<Rightarrow> Inl (SatelliteCreateError e)
                | Inr sat \<Rightarrow> Inr sat)))"
  by (simp add: get_satellite_def get_tle_for_satellite_def stored_text_def
      split: option.splits sum.splits prod.splits)

text \<open>
  Claim C8, as the code has it. A prediction call returns an error and no list of passes
  when there is no element text (none in memory and the file cannot be read), when the
  lookup in the text fails (the satellite is not found or its record is incomplete), and
  when the library raises on the two element lines. In every other case the satellite is
  built from the two lines as they are: the module tests neither their format nor their
  checksum nor the age of the text, and with no text in memory it reads the file without
  a notice.
\<close>

theorem calculate_passes_explicit_failure:
  "(stored_text w g = None \<longrightarrow>
      fst (calculate_passes sky w next_days g) = Return (Inl TleFileNotFound)) \<and>
   (\<forall>text err. stored_text w g = Some text \<and> tle_lookup (SAT_NAME g) text = Inl err \<longrightarrow>
      fst (calculate_passes sky w next_days g) = Return (Inl err) \<and>
      (err = IncompleteTle \<or> err = SatelliteNotFound)) \<and>
   (\<forall>text name_line tle_line1 tle_line2 e.
      stored_text w g = Some text \<and>
      tle_lookup (SAT_NAME g) text = Inr (name_line, tle_line1, tle_line2) \<and>
      EarthSatellite sky tle_line1 tle_line2 (SAT_NAME g) = Inl e \<longrightarrow>
      fst (calculate_passes sky w next_days g) = Return (Inl (SatelliteCreateError e))) \<and>
   (\<forall>text name_line tle_line1 tle_line2 sat.
      stored_text w g = Some text \<and>
      tle_lookup (SAT_NAME g) text = Inr (name_line, tle_line1, tle_line2) \<and>
      EarthSatellite sky tle_line1 tle_line2 (SAT_NAME g) = Inr sat \<longrightarrow>
      fst (get_satellite sky w g) = Inr sat)"
proof -
  have a: "fst (calculate_passes sky w next_days g) = Return (Inl TleFileNotFound)"
    if "stored_text w g = None"
    using that by (intro calculate_passes_early) (simp add: get_satellite_result)
  have b1: "fst (calculate_passes sky w next_days g) = Return (Inl err)"
    if "stored_text w g = Some tle" "tle_lookup (SAT_NAME g) tle = Inl err" for tle err
    using that by (intro calculate_passes_early) (simp add: get_satellite_result)
  have scan: "tle_scan name lines xs = Inl err \<Longrightarrow> err = IncompleteTle \<or> err = SatelliteNotFound"
    for name lines xs err
    by (induction name lines xs rule: tle_scan.induct) (auto split: if_splits)
  have b2: "err = IncompleteTle \<or> err = SatelliteNotFound"
    if "tle_lookup (SAT_NAME g) tle = Inl err" for tle err
    using that scan by (simp add: tle_lookup_def Let_def)
  have c: "fst (calculate_passes sky w next_days g) = Return (Inl (SatelliteCreateError e))"
    if "stored_text w g = Some tle" "tle_lookup (SAT_NAME g) tle = Inr (name_line, tle_line1, tle_line2)"
       "EarthSatellite sky tle_line1 tle_line2 (SAT_NAME g) = Inl e"
    for tle name_line tle_line1 tle_line2 e
    using that by (intro calculate_passes_early) (simp add: get_satellite_result)
  have d: "fst (get_satellite sky w g) = Inr sat"
    if "stored_text w g = Some tle" "tle_lookup (SAT_NAME g) tle = Inr (name_line, tle_line1, tle_line2)"
       "EarthSatellite sky tle_line1 tle_line2 (SAT_NAME g) = Inr sat"
    for tle name_line tle_line1 tle_line2 sat
    using that by (simp add: get_satellite_result)
  from a b1 b2 c d show ?thesis by blast
qed

lemma example_lookup_name:
  "tle_lookup ''CUBESX-HSE 3'' ''CUBESX-HSE 3\<newline>1 A\<newline>2 B\<newline>'' = Inr (''CUBESX-HSE 3'', ''1 A'', ''2 B'')"
  by (simp add: tle_lookup_def example_lines)

lemma example_lookup_incomplete:
  "tle_lookup ''1 A'' ''CUBESX-HSE 3\<newline>1 A\<newline>2 B\<newline>'' = Inl IncompleteTle"
  by (simp add: tle_lookup_def example_lines)

lemma example_lookup_missing:
  "tle_lookup ''ISS'' ''CUBESX-HSE 3\<newline>1 A\<newline>2 B\<newline>'' = Inl SatelliteNotFound"
  by (simp add: tle_lookup_def example_lines)

theorem calculate_passes_explicit_failure_witness:
  "fst (calculate_passes example_skyfield (example_world\<lparr>read_tle_file := None\<rparr>) 3 initial_globals) =
     Return (Inl TleFileNotFound) \<and>
   fst (calculate_passes example_skyfield example_world 3 (initial_globals\<lparr>SAT_NAME := ''ISS''\<rparr>)) =
     Return (Inl SatelliteNotFound) \<and>
   fst (calculate_passes example_skyfield example_world 3 (initial_globals\<lparr>SAT_NAME := ''1 A''\<rparr>)) =
     Return (Inl IncompleteTle) \<and>
   fst (calculate_passes (example_skyfield\<lparr>EarthSatellite := (\<lambda>line1 line2 name. Inl ''bad checksum'')\<rparr>)
          example_world 3 (initial_globals\<lparr>SAT_NAME := ''CUBESX-HSE 3''\<rparr>)) =
     Return (Inl (SatelliteCreateError ''bad checksum'')) \<and>
   fst (get_satellite example_skyfield example_world (initial_globals\<lparr>SAT_NAME := ''CUBESX-HSE 3''\<rparr>)) =
     Inr ()"
proof -
  have none: "stored_text (example_world\<lparr>read_tle_file := None\<rparr>) initial_globals = None"
    by (simp add: stored_text_def example_world_def initial_globals_def)
  have a: "fst (calculate_passes example_skyfield (example_world\<lparr>read_tle_file := None\<rparr>) 3 initial_globals) =
     Return (Inl TleFileNotFound)"
    using calculate_passes_explicit_failure
            [of "example_world\<lparr>read_tle_file := None\<rparr>" initial_globals example_skyfield 3] none
    by simp
  have b: "fst (calculate_passes example_skyfield example_world 3 (initial_globals\<lparr>SAT_NAME := ''ISS''\<rparr>)) =
     Return (Inl SatelliteNotFound)"
    using calculate_passes_explicit_failure
            [of example_world "initial_globals\<lparr>SAT_NAME := ''ISS''\<rparr>" example_skyfield 3,
             THEN conjunct2, THEN conjunct1, rule_format,
             of "''CUBESX-HSE 3\<newline>1 A\<newline>2 B\<newline>''" SatelliteNotFound]
    by (simp add: example_stored_text example_lookup_missing)
  have c: "fst (calculate_passes example_skyfield example_world 3 (initial_globals\<lparr>SAT_NAME := ''1 A''\<rparr>)) =
     Return (Inl IncompleteTle)"
    using calculate_passes_explicit_failure
            [of example_world "initial_globals\<lparr>SAT_NAME := ''1 A''\<rparr>" example_skyfield 3,
             THEN conjunct2, THEN conjunct1, rule_format,
             of "''CUBESX-HSE 3\<newline>1 A\<newline>2 B\<newline>''" IncompleteTle]
    by (simp add: example_stored_text example_lookup_incomplete)
  have d: "fst (calculate_passes (example_skyfield\<lparr>EarthSatellite := (\<lambda>line1 line2 name. Inl ''bad checksum'')\<rparr>)
          example_world 3 (initial_globals\<lparr>SAT_NAME := ''CUBESX-HSE 3''\<rparr>)) =
     Return (Inl (SatelliteCreateError ''bad checksum''))"
    using calculate_passes_explicit_failure
            [of example_world "initial_globals\<lparr>SAT_NAME := ''CUBESX-HSE 3''\<rparr>"
                "example_skyfield\<lparr>EarthSatellite := (\<lambda>line1 line2 name. Inl ''bad checksum'')\<rparr>" 3,
             THEN conjunct2, THEN conjunct2, THEN conjunct1, rule_format,
             of "''CUBESX-HSE 3\<newline>1 A\<newline>2 B\<newline>''" "''CUBESX-HSE 3''" "''1 A''" "''2 B''"
                "''bad checksum''"]
    by (simp add: example_stored_text example_lookup_name)
  have e: "fst (get_satellite example_skyfield example_world (initial_globals\<lparr>SAT_NAME := ''CUBESX-HSE 3''\<rparr>)) =
     Inr ()"
    using calculate_passes_explicit_failure
            [of example_world "initial_globals\<lparr>SAT_NAME := ''CUBESX-HSE 3''\<rparr>" example_skyfield 3,
             THEN conjunct2, THEN conjunct2, THEN conjunct2, rule_format,
             of "''CUBESX-HSE 3\<newline>1 A\<newline>2 B\<newline>''" "''CUBESX-HSE 3''" "''1 A''" "''2 B''" "()"]
    by (simp add: example_stored_text example_lookup_name example_skyfield_def)
  from a b c d e show ?thesis by (intro conjI)
qed

text \<open>The format test holds of the two lines of a published element set.\<close>

lemma tle_line_valid_example:
  "tle_line_valid (CHR ''1'') ''1 25544U 98067A   08264.51782528 -.00002182  00000-0 -11606-4 0  2927''"
  "tle_line_valid (CHR ''2'') ''2 25544  51.6416 247.4627 0006703 130.5360 325.0288 15.72125391563537''"
  by (simp_all add: tle_line_valid_def tle_checksum_def Let_def)

text \<open>
  The claim as stated fails on the concrete run: no text is in memory and none was ever
  downloaded, the text of the file is taken as it is, its two element lines are not in the
  element format, the library accepts them, and the call returns a pass and no error.
\<close>

theorem calculate_passes_predicts_from_unchecked_text:
  "tle_content initial_globals = None \<and> last_tle_update initial_globals = None \<and>
   fst (get_tle_for_satellite example_world initial_globals) = Inr (''CUBESX-HSE 3'', ''1 A'', ''2 B'') \<and>
   \<not> tle_line_valid (CHR ''1'') ''1 A'' \<and> \<not> tle_line_valid (CHR ''2'') ''2 B'' \<and>
   fst (calculate_passes example_skyfield example_world 3 initial_globals) = Return (Inr [example_pass])"
proof -
  have a: "tle_content initial_globals = None" "last_tle_update initial_globals = None"
    by (simp_all add: initial_globals_def)
  have b: "fst (get_tle_for_satellite example_world initial_globals) = Inr (''CUBESX-HSE 3'', ''1 A'', ''2 B'')"
    by (simp add: example_lookup)
  have c: "\<not> tle_line_valid (CHR ''1'') ''1 A''" "\<not> tle_line_valid (CHR ''2'') ''2 B''"
    by (simp_all add: tle_line_valid_def)
  from a b c example_passes show ?thesis by (intro conjI)
qed

text \<open>
  Claim C9, as the code has it. A lookup or a prediction call never changes a
  configuration value, and it leaves the stored element text as it is when text is
  already in memory or the file cannot be read. When no text is in memory and the file
  can be read, the call stores the text of the file in \<open>tle_content\<close>: the lookup loads
  the text on first use.
\<close>

theorem lookup_and_prediction_frame:
  "snd (get_tle_for_satellite w g) = g\<lparr>tle_content := stored_text w g\<rparr> \<and>
   snd (calculate_passes sky w next_days g) = g\<lparr>tle_content := stored_text w g\<rparr> \<and>
   (tle_content g \<noteq> None \<or> read_tle_file w = None \<longrightarrow>
      snd (get_tle_for_satellite w g) = g \<and> snd (calculate_passes sky w next_days g) = g)"
proof -
  have "g\<lparr>tle_content := stored_text w g\<rparr> = g"
    if "tle_content g \<noteq> None \<or> read_tle_file w = None"
    using that by (auto simp: stored_text_def split: option.splits)
  then show ?thesis
    by (simp add: get_tle_for_satellite_globals calculate_passes_globals)
qed

theorem lookup_and_prediction_frame_witness:
  "snd (get_tle_for_satellite example_world initial_globals) =
     initial_globals\<lparr>tle_content := Some ''CUBESX-HSE 3\<newline>1 A\<newline>2 B\<newline>''\<rparr> \<and>
   snd (calculate_passes example_skyfield example_world 3 initial_globals) =
     initial_globals\<lparr>tle_content := Some ''CUBESX-HSE 3\<newline>1 A\<newline>2 B\<newline>''\<rparr> \<and>
   snd (get_tle_for_satellite example_world (initial_globals\<lparr>tle_content := Some ''X''\<rparr>)) =
     initial_globals\<lparr>tle_content := Some ''X''\<rparr> \<and>
   snd (calculate_passes example_skyfield example_world 3 (initial_globals\<lparr>tle_content := Some ''X''\<rparr>)) =
     initial_globals\<lparr>tle_content := Some ''X''\<rparr>"
proof -
  have st: "stored_text example_world initial_globals = Some ''CUBESX-HSE 3\<newline>1 A\<newline>2 B\<newline>''"
    by (simp add: stored_text_def example_world_def initial_globals_def)
  have a: "snd (get_tle_for_satellite example_world initial_globals) =
             initial_globals\<lparr>tle_content := Some ''CUBESX-HSE 3\<newline>1 A\<newline>2 B\<newline>''\<rparr> \<and>
           snd (calculate_passes example_skyfield example_world 3 initial_globals) =
             initial_globals\<lparr>tle_content := Some ''CUBESX-HSE 3\<newline>1 A\<newline>2 B\<newline>''\<rparr>"
    using lookup_and_prediction_frame [of example_world initial_globals example_skyfield 3]
    by (simp add: st)
  have b: "snd (get_tle_for_satellite example_world (initial_globals\<lparr>tle_content := Some ''X''\<rparr>)) =
             initial_globals\<lparr>tle_content := Some ''X''\<rparr> \<and>
           snd (calculate_passes example_skyfield example_world 3 (initial_globals\<lparr>tle_content := Some ''X''\<rparr>)) =
             initial_globals\<lparr>tle_content := Some ''X''\<rparr>"
    using lookup_and_prediction_frame
            [of example_world "initial_globals\<lparr>tle_content := Some ''X''\<rparr>" example_skyfield 3]
    by (simp add: stored_text_def)
  from a b show ?thesis by simp
qed

text \<open>
  The claim as stated fails on the first lookup after a start without a download: no text
  is in memory, the file is read, and \<open>tle_content\<close> is written.
\<close>

theorem lookup_writes_tle_content:
  "tle_content initial_globals = None \<and>
   tle_content (snd (get_tle_for_satellite example_world initial_globals)) =
     Some ''CUBESX-HSE 3\<newline>1 A\<newline>2 B\<newline>'' \<and>
   snd (get_tle_for_satellite example_world initial_globals) \<noteq> initial_globals \<and>
   snd (calculate_passes example_skyfield example_world 3 initial_globals) \<noteq> initial_globals"
proof -
  have a: "tle_content initial_globals = None"
    by (simp add: initial_globals_def)
  have st: "stored_text example_world initial_globals = Some ''CUBESX-HSE 3\<newline>1 A\<newline>2 B\<newline>''"
    by (simp add: stored_text_def example_world_def initial_globals_def)
  have b: "tle_content (snd (get_tle_for_satellite example_world initial_globals)) =
     Some ''CUBESX-HSE 3\<newline>1 A\<newline>2 B\<newline>''"
    by (simp add: get_tle_for_satellite_globals st)
  have c: "tle_content (snd (calculate_passes example_skyfield example_world 3 initial_globals)) =
     Some ''CUBESX-HSE 3\<newline>1 A\<newline>2 B\<newline>''"
    by (simp add: calculate_passes_globals st)
  from a b have d: "snd (get_tle_for_satellite example_world initial_globals) \<noteq> initial_globals"
    by (metis option.distinct(1))
  from a c have e: "snd (calculate_passes example_skyfield example_world 3 initial_globals) \<noteq> initial_globals"
    by (metis option.distinct(1))
  from a b d e show ?thesis by (intro conjI)
qed

subsection \<open>Scheduling\<close>

lemma total_seconds_pos: "(0 < total_seconds td) = (0 < td)"
  by (simp add: total_seconds_def)

text \<open>
  Claim C2, as the code has it. When the fire instant, the rise instant less
  \<open>NOTIFY_MINUTES\<close> minutes, is a datetime that Python can represent, the call puts one
  job on the queue if the fire instant is later than now, with the time to the fire
  instant as its delay, and otherwise leaves the queue as it is and writes an info record
  to the log; it does not raise. When the fire instant is outside the range of datetime,
  the subtraction raises \<open>OverflowError\<close>.
\<close>

theorem schedule_notification_fire:
  "(datetime_valid (pass_time - timedelta_minutes (NOTIFY_MINUTES g)) \<longrightarrow>
      schedule_notification g w rt pass_time chat_id =
        (if utcnow w < pass_time - timedelta_minutes (NOTIFY_MINUTES g)
         then Return (rt\<lparr>job_queue := job_queue rt @
                [\<lparr>job_callback = pass_notification,
                  job_delay = total_seconds (pass_time - timedelta_minutes (NOTIFY_MINUTES g) - utcnow w),
                  job_chat_id = chat_id\<rparr>]\<rparr>)
         else Return (rt\<lparr>logged := logged rt @ [InfoNotifyTimePassed]\<rparr>))) \<and>
   (\<not> datetime_valid (pass_time - timedelta_minutes (NOTIFY_MINUTES g)) \<longrightarrow>
      schedule_notification g w rt pass_time chat_id = Raise OverflowError)"
  by (simp add: schedule_notification_def datetime_sub_def Let_def total_seconds_pos)

theorem schedule_notification_fire_witness:
  "schedule_notification initial_globals example_world example_runtime 63902826000000000 7 =
     Return \<lparr>job_queue = [\<lparr>job_callback = pass_notification, job_delay = 2700, job_chat_id = 7\<rparr>],
             logged = []\<rparr> \<and>
   schedule_notification initial_globals example_world example_runtime 63902823300000000 7 =
     Return \<lparr>job_queue = [], logged = [InfoNotifyTimePassed]\<rparr> \<and>
   schedule_notification initial_globals example_world example_runtime 63902823000000000 7 =
     Return \<lparr>job_queue = [], logged = [InfoNotifyTimePassed]\<rparr>"
proof -
  have n: "NOTIFY_MINUTES initial_globals = 15" "utcnow example_world = 63902822400000000"
    by (simp_all add: initial_globals_def example_world_def)
  have a: "schedule_notification initial_globals example_world example_runtime 63902826000000000 7 =
     Return \<lparr>job_queue = [\<lparr>job_callback = pass_notification, job_delay = 2700, job_chat_id = 7\<rparr>],
             logged = []\<rparr>"
    using schedule_notification_fire [of 63902826000000000 initial_globals example_world example_runtime 7]
    by (simp add: n datetime_valid_def datetime_max_def timedelta_minutes_def total_seconds_def
          example_runtime_def)
  have b: "schedule_notification initial_globals example_world example_runtime 63902823300000000 7 =
     Return \<lparr>job_queue = [], logged = [InfoNotifyTimePassed]\<rparr>"
    using schedule_notification_fire [of 63902823300000000 initial_globals example_world example_runtime 7]
    by (simp add: n datetime_valid_def datetime_max_def timedelta_minutes_def total_seconds_def
          example_runtime_def)
  have c: "schedule_notification initial_globals example_world example_runtime 63902823000000000 7 =
     Return \<lparr>job_queue = [], logged = [InfoNotifyTimePassed]\<rparr>"
    using schedule_notification_fire [of 63902823000000000 initial_globals example_world example_runtime 7]
    by (simp add: n datetime_valid_def datetime_max_def timedelta_minutes_def total_seconds_def
          example_runtime_def)
  from a b c show ?thesis by (intro conjI)
qed

text \<open>
  The claim as stated fails for a lead time of two thousand million minutes, which the
  settings accept: the fire instant lies before the year 1, so it is not later than now,
  and the call raises instead of logging.
\<close>

theorem schedule_notification_overflow:
  "63902826000000000 - timedelta_minutes 2000000000 \<le> utcnow example_world \<and>
   schedule_notification (initial_globals\<lparr>NOTIFY_MINUTES := 2000000000\<rparr>) example_world
     example_runtime 63902826000000000 7 = Raise OverflowError"
  by (simp add: schedule_notification_def datetime_sub_def datetime_valid_def datetime_max_def
      timedelta_minutes_def example_world_def initial_globals_def)

text \<open>
  The peak elevation that a returned pass records is the elevation that the library gives
  at the time of the culmination event of its triple.
\<close>

lemma recorded_peak_is_culmination_elevation:
  assumes "window_events sky w next_days g = Some (sat, t_events, events)"
    and "fst (calculate_passes sky w next_days g) = Return (Inr passes)"
    and "p \<in> set passes"
  shows "\<exists>j. j + 2 < length events \<and> events ! (j + 1) = 1 \<and>
             culmination p = utc_datetime sky (t_events ! (j + 1)) \<and>
             max_elevation p = altaz_degrees sky sat (station_of g) (t_events ! (j + 1))"
proof -
  from calculate_passes_char [OF assms(1,2)] assms(3)
  obtain j where j: "j \<in> set (triple_starts 0 events)"
    and p: "p = pass_at sky sat (station_of g) t_events j"
    by auto
  from triple_starts_sound [OF j] p show ?thesis
    by (auto simp: pass_at_def)
qed

end
